theory Spec2Isabelle
  imports Complex_Main
begin

section \<open>Taurus line-edit widgets (\<^verbatim>\<open>taurus/qt/qtgui/input/tauruslineedit.py\<close>)\<close>

text \<open>
  The module defines a validator for pint quantities and two widgets built on
  \<^verbatim>\<open>QLineEdit\<close>. Names of the source are kept; a leading underscore of a Python
  name is dropped (\<^verbatim>\<open>_inAlarm\<close> is \<open>inAlarm\<close>), except that \<^verbatim>\<open>_validate\<close> is written
  \<open>validate'\<close> to keep it apart from \<^verbatim>\<open>validate\<close>, and the fields \<^verbatim>\<open>_top\<close>, \<^verbatim>\<open>_bottom\<close>
  are written \<open>top'\<close>, \<open>bottom'\<close>.
\<close>

subsection \<open>Python floats, as far as they are compared\<close>

text \<open>
  The widgets only compare floats. An IEEE double is a finite real, one of the two
  infinities, or NaN; every comparison with NaN is false.
\<close>

datatype pyfloat = NaN | NegInf | Fin real | PosInf

fun float_lt :: "pyfloat \<Rightarrow> pyfloat \<Rightarrow> bool" where
  "float_lt NaN _ = False"
| "float_lt _ NaN = False"
| "float_lt PosInf _ = False"
| "float_lt _ NegInf = False"
| "float_lt NegInf _ = True"
| "float_lt _ PosInf = True"
| "float_lt (Fin x) (Fin y) = (x < y)"

fun float_le :: "pyfloat \<Rightarrow> pyfloat \<Rightarrow> bool" where
  "float_le NaN _ = False"
| "float_le _ NaN = False"
| "float_le NegInf _ = True"
| "float_le _ PosInf = True"
| "float_le PosInf _ = False"
| "float_le _ NegInf = False"
| "float_le (Fin x) (Fin y) = (x \<le> y)"

subsection \<open>The pint library, as the validator uses it\<close>

text \<open>
  \<^verbatim>\<open>Quantity\<close> and \<^verbatim>\<open>DimensionalityError\<close> are imported from \<^verbatim>\<open>taurus.external.pint\<close>.
  The validator builds a quantity from a string (any exception is caught by a bare
  \<^verbatim>\<open>except\<close>), builds one from a number, and compares two quantities: the comparison
  answers with a truth value or raises \<^verbatim>\<open>DimensionalityError\<close> when the units are
  incompatible. These operations are parameters of the model.
\<close>

datatype pint_error = DimensionalityError

record 'q pint =
  Quantity :: "string \<Rightarrow> 'q option"
  Quantity_of_number :: "pyfloat \<Rightarrow> 'q"
  quantity_lt :: "'q \<Rightarrow> 'q \<Rightarrow> pint_error + bool"
  quantity_gt :: "'q \<Rightarrow> 'q \<Rightarrow> pint_error + bool"

subsection \<open>\<^verbatim>\<open>_PintValidator\<close>\<close>

datatype State = Invalid | Intermediate | Acceptable

record 'q PintValidator =
  top' :: "'q option"
  bottom' :: "'q option"

text \<open>The class attributes \<^verbatim>\<open>_top = None\<close> and \<^verbatim>\<open>_bottom = None\<close> of a fresh validator.\<close>

definition PintValidator_init :: "'q PintValidator" where
  "PintValidator_init = \<lparr>top' = None, bottom' = None\<rparr>"

definition setTop :: "'q pint \<Rightarrow> 'q PintValidator \<Rightarrow> pyfloat \<Rightarrow> 'q PintValidator" where
  "setTop P V t = V\<lparr>top' := Some (Quantity_of_number P t)\<rparr>"

definition setBottom :: "'q pint \<Rightarrow> 'q PintValidator \<Rightarrow> pyfloat \<Rightarrow> 'q PintValidator" where
  "setBottom P V b = V\<lparr>bottom' := Some (Quantity_of_number P b)\<rparr>"

text \<open>
  \<^verbatim>\<open>_validate\<close>: the first \<^verbatim>\<open>try\<close> parses, the second compares with the bottom and then
  with the top limit; \<^verbatim>\<open>and\<close> does not evaluate the comparison when the limit is
  \<^verbatim>\<open>None\<close>.
\<close>

definition validate' ::
  "'q pint \<Rightarrow> 'q PintValidator \<Rightarrow> string \<Rightarrow> int \<Rightarrow> State \<times> string \<times> int" where
  "validate' P V input pos =
     (case Quantity P input of
        None \<Rightarrow> (Intermediate, input, pos)
      | Some q \<Rightarrow>
          (case (case bottom' V of None \<Rightarrow> Inr False | Some b \<Rightarrow> quantity_lt P q b) of
             Inl DimensionalityError \<Rightarrow> (Invalid, input, pos)
           | Inr True \<Rightarrow> (Invalid, input, pos)
           | Inr False \<Rightarrow>
               (case (case top' V of None \<Rightarrow> Inr False | Some t \<Rightarrow> quantity_gt P q t) of
                  Inl DimensionalityError \<Rightarrow> (Invalid, input, pos)
                | Inr True \<Rightarrow> (Invalid, input, pos)
                | Inr False \<Rightarrow> (Acceptable, input, pos))))"

definition validate_oldQt :: "'q pint \<Rightarrow> 'q PintValidator \<Rightarrow> string \<Rightarrow> int \<Rightarrow> State \<times> int" where
  "validate_oldQt P V input pos =
     (case validate' P V input pos of (state, _, pos') \<Rightarrow> (state, pos'))"

text \<open>
  \<^verbatim>\<open>validate = Qt.PYQT_QSTRING_API_1 and _validate_oldQt or _validate\<close>: the flag picks
  the implementation once, so the result is a pair or a triple.
\<close>

datatype validated = OldQt "State \<times> int" | NewQt "State \<times> string \<times> int"

definition validate ::
  "bool \<Rightarrow> 'q pint \<Rightarrow> 'q PintValidator \<Rightarrow> string \<Rightarrow> int \<Rightarrow> validated" where
  "validate PYQT_QSTRING_API_1 P V input pos =
     (if PYQT_QSTRING_API_1 then OldQt (validate_oldQt P V input pos)
      else NewQt (validate' P V input pos))"

text \<open>Item \<^verbatim>\<open>[0]\<close> of the returned tuple.\<close>

fun item0 :: "validated \<Rightarrow> State" where
  "item0 (OldQt (state, _)) = state"
| "item0 (NewQt (state, _, _)) = state"

text \<open>A small unit system for concrete runs: a magnitude and a unit name.\<close>

definition demo_pint :: "(pyfloat \<times> string) pint" where
  "demo_pint =
     \<lparr>Quantity = (\<lambda>s. if s = ''5 mm'' then Some (Fin 5, ''mm'')
                      else if s = ''20 mm'' then Some (Fin 20, ''mm'')
                      else if s = ''-5 mm'' then Some (Fin (- 5), ''mm'')
                      else if s = ''5 s'' then Some (Fin 5, ''s'')
                      else if s = ''5'' then Some (Fin 5, [])
                      else if s = ''20'' then Some (Fin 20, [])
                      else None),
      Quantity_of_number = (\<lambda>x. (x, [])),
      quantity_lt = (\<lambda>a b. if snd a = snd b then Inr (float_lt (fst a) (fst b))
                             else Inl DimensionalityError),
      quantity_gt = (\<lambda>a b. if snd a = snd b then Inr (float_lt (fst b) (fst a))
                             else Inl DimensionalityError)\<rparr>"

definition demo_validator :: "(pyfloat \<times> string) PintValidator" where
  "demo_validator = \<lparr>top' = Some (Fin 10, ''mm''), bottom' = Some (Fin 0, ''mm'')\<rparr>"

definition demo_validator2 :: "(pyfloat \<times> string) PintValidator" where
  "demo_validator2 = \<lparr>top' = Some (Fin 10, ''mm''), bottom' = Some (Fin 0, ''s'')\<rparr>"

subsection \<open>Python values and built-ins\<close>

text \<open>
  What \<^verbatim>\<open>model.encode\<close> returns is an arbitrary Python object. \<^verbatim>\<open>None\<close>, ints and
  floats are told apart because the widget produces them itself; every other object
  is a \<open>PyObj\<close>.
\<close>

datatype 'o pyval = PyNone | PyInt int | PyFloat pyfloat | PyObj 'o

datatype py_error = AttributeError | TypeError | OtherException

text \<open>
  The built-ins \<^verbatim>\<open>float\<close>, \<^verbatim>\<open>str\<close>, \<^verbatim>\<open>+\<close> and the product of an int with a float are
  Python's own; on objects they dispatch to the object's methods. They are
  parameters, \<open>None\<close> standing for a raised exception in \<open>float_of_int\<close> and
  \<open>float_of_obj\<close>.
\<close>

record 'o python =
  float_of_int :: "int \<Rightarrow> pyfloat option"
  float_of_obj :: "'o \<Rightarrow> pyfloat option"
  str_of :: "'o pyval \<Rightarrow> string"
  add :: "'o pyval \<Rightarrow> 'o pyval \<Rightarrow> py_error + 'o pyval"
  int_times_float :: "int \<Rightarrow> pyfloat \<Rightarrow> pyfloat"

text \<open>\<^verbatim>\<open>float(v)\<close>; \<^verbatim>\<open>float(None)\<close> raises \<^verbatim>\<open>TypeError\<close>.\<close>

fun py_float :: "'o python \<Rightarrow> 'o pyval \<Rightarrow> pyfloat option" where
  "py_float R PyNone = None"
| "py_float R (PyInt n) = float_of_int R n"
| "py_float R (PyFloat x) = Some x"
| "py_float R (PyObj x) = float_of_obj R x"

text \<open>\<^verbatim>\<open>str(v)\<close>.\<close>

fun py_str :: "'o python \<Rightarrow> 'o pyval \<Rightarrow> string" where
  "py_str R PyNone = ''None''"
| "py_str R v = str_of R v"

text \<open>\<^verbatim>\<open>a + b\<close> for a number \<open>b\<close>; \<^verbatim>\<open>None + b\<close> raises \<^verbatim>\<open>TypeError\<close>.\<close>

fun py_add :: "'o python \<Rightarrow> 'o pyval \<Rightarrow> 'o pyval \<Rightarrow> py_error + 'o pyval" where
  "py_add R PyNone b = Inl TypeError"
| "py_add R a b = add R a b"

text \<open>The literal \<^verbatim>\<open>.1\<close>: the double nearest to one tenth.\<close>

definition point_one :: pyfloat where
  "point_one = Fin (3602879701896397 / 36028797018963968)"

text \<open>\<^verbatim>\<open>str.strip()\<close> removes the ASCII whitespace at both ends.\<close>

definition isspace :: "char \<Rightarrow> bool" where
  "isspace c = (c \<in> set [CHR '' '', CHR 0x09, CHR 0x0A, CHR 0x0B, CHR 0x0C, CHR 0x0D])"

definition strip :: "string \<Rightarrow> string" where
  "strip s = rev (dropWhile isspace (rev (dropWhile isspace s)))"

subsection \<open>The objects the widget talks to\<close>

text \<open>
  \<^verbatim>\<open>taurus.core.DataType\<close> and \<^verbatim>\<open>TaurusEventType\<close> are enumerations defined outside this
  module, which names the members \<^verbatim>\<open>Integer\<close>, \<^verbatim>\<open>Float\<close> and \<^verbatim>\<open>Config\<close> only; the
  other members are carried by name.
\<close>

datatype DataType = Integer | Float | OtherDataType string

datatype TaurusEventType = Config | OtherEventType string

text \<open>The event value: only its attribute \<^verbatim>\<open>type\<close> is read.\<close>

record TaurusValue =
  type' :: DataType

text \<open>
  The model object (\<^verbatim>\<open>getModelObj()\<close>): the attribute's \<^verbatim>\<open>alarm\<close> and \<^verbatim>\<open>range\<close> pairs and
  the methods the widget calls. \<^verbatim>\<open>encode\<close> may raise. The bounds are floats, as
  \<^verbatim>\<open>__init__\<close> sets them and as the \<^verbatim>\<open>%f\<close> of the debug message in \<^verbatim>\<open>_updateValidator\<close> prints
  them.
\<close>

record 'o TaurusAttribute =
  alarm :: "pyfloat \<times> pyfloat"
  range' :: "pyfloat \<times> pyfloat"
  encode :: "string \<Rightarrow> py_error + 'o pyval"
  displayValue :: "'o pyval \<Rightarrow> 'o pyval"
  isNumeric :: bool
  isFloat :: bool

subsection \<open>\<^verbatim>\<open>TaurusValueLineEdit\<close>\<close>

text \<open>
  The widget's state: the fields set in \<^verbatim>\<open>__init__\<close> (\<^verbatim>\<open>_enableWheelEvent\<close> and the four
  private bounds), what \<^verbatim>\<open>QLineEdit\<close> holds (validator, text, read-only flag, style
  sheet) and what \<^verbatim>\<open>TaurusBaseWritableWidget\<close> holds (\<^verbatim>\<open>_autoApply\<close>, the model object,
  the answer of \<^verbatim>\<open>hasPendingOperations()\<close>).
\<close>

record ('o, 'q) TaurusValueLineEdit =
  enableWheelEvent :: bool
  minAlarm :: pyfloat
  maxAlarm :: pyfloat
  minLimit :: pyfloat
  maxLimit :: pyfloat
  validator :: "'q PintValidator option"
  text' :: string
  readOnly :: bool
  styleSheet :: string
  autoApply :: bool
  modelObj :: "'o TaurusAttribute option"
  hasPendingOperations :: bool

text \<open>\<^verbatim>\<open>__init__\<close>, on the state the two base constructors leave.\<close>

definition init ::
  "('o, 'q) TaurusValueLineEdit \<Rightarrow> ('o, 'q) TaurusValueLineEdit" where
  "init w = w\<lparr>enableWheelEvent := False,
              minAlarm := NegInf, maxAlarm := PosInf,
              minLimit := NegInf, maxLimit := PosInf,
              validator := None\<rparr>"

text \<open>\<^verbatim>\<open>_updateValidator\<close>; the two \<^verbatim>\<open>self.debug\<close> messages are left out.\<close>

definition updateValidator ::
  "'q pint \<Rightarrow> ('o, 'q) TaurusValueLineEdit \<Rightarrow> TaurusValue \<Rightarrow> ('o, 'q) TaurusValueLineEdit" where
  "updateValidator P w value =
     (if type' value \<in> {Integer, Float} then
        let validator0 = PintValidator_init;
            validator1 = setBottom P validator0 (minLimit w);
            validator2 = setTop P validator1 (maxLimit w)
        in w\<lparr>validator := Some validator2\<rparr>
      else w\<lparr>validator := None\<rparr>)"

text \<open>
  \<^verbatim>\<open>handleEvent\<close>: \<^verbatim>\<open>attr.alarm\<close> on a missing model object raises \<^verbatim>\<open>AttributeError\<close>. The
  handler of the base class, called last, is a parameter.
\<close>

definition handleEvent ::
  "'q pint \<Rightarrow> (('o, 'q) TaurusValueLineEdit \<Rightarrow> TaurusEventType \<Rightarrow> TaurusValue \<Rightarrow> ('o, 'q) TaurusValueLineEdit)
   \<Rightarrow> ('o, 'q) TaurusValueLineEdit \<Rightarrow> TaurusEventType \<Rightarrow> TaurusValue
   \<Rightarrow> py_error + ('o, 'q) TaurusValueLineEdit" where
  "handleEvent P base_handleEvent w evt_type evt_value =
     (if evt_type = Config then
        (case modelObj w of
           None \<Rightarrow> Inl AttributeError
         | Some attr \<Rightarrow>
             let w1 = w\<lparr>minAlarm := fst (alarm attr), maxAlarm := snd (alarm attr)\<rparr>;
                 w2 = w1\<lparr>minLimit := fst (range' attr), maxLimit := snd (range' attr)\<rparr>;
                 w3 = updateValidator P w2 evt_value
             in Inr (base_handleEvent w3 evt_type evt_value))
      else Inr (base_handleEvent w evt_type evt_value))"

text \<open>
  \<^verbatim>\<open>_inAlarm\<close> and \<^verbatim>\<open>_outOfRange\<close>: the chained comparison is a conjunction, and the bare
  \<^verbatim>\<open>except\<close> answers \<^verbatim>\<open>False\<close> when \<^verbatim>\<open>float(v)\<close> raises.
\<close>

definition inAlarm :: "'o python \<Rightarrow> ('o, 'q) TaurusValueLineEdit \<Rightarrow> 'o pyval \<Rightarrow> bool" where
  "inAlarm R w v =
     (case py_float R v of
        None \<Rightarrow> False
      | Some x \<Rightarrow> \<not> (float_lt (minAlarm w) x \<and> float_lt x (maxAlarm w)))"

definition outOfRange ::
  "bool \<Rightarrow> 'q pint \<Rightarrow> 'o python \<Rightarrow> ('o, 'q) TaurusValueLineEdit \<Rightarrow> 'o pyval \<Rightarrow> bool" where
  "outOfRange api P R w v =
     (case validator w of
        Some V \<Rightarrow> item0 (validate api P V (py_str R v) 0) \<noteq> Acceptable
      | None \<Rightarrow>
          (case py_float R v of
             None \<Rightarrow> False
           | Some x \<Rightarrow> \<not> (float_le (minLimit w) x \<and> float_le x (maxLimit w))))"

text \<open>\<^verbatim>\<open>getValue\<close>: the bare \<^verbatim>\<open>except\<close> turns every exception of the \<^verbatim>\<open>try\<close> into \<^verbatim>\<open>None\<close>.\<close>

definition try_encode :: "('o, 'q) TaurusValueLineEdit \<Rightarrow> py_error + 'o pyval" where
  "try_encode w =
     (case modelObj w of None \<Rightarrow> Inl AttributeError | Some model \<Rightarrow> encode model (text' w))"

definition getValue :: "('o, 'q) TaurusValueLineEdit \<Rightarrow> 'o pyval" where
  "getValue w = (case try_encode w of Inl _ \<Rightarrow> PyNone | Inr v \<Rightarrow> v)"

definition format_style :: "string \<Rightarrow> string \<Rightarrow> string \<Rightarrow> string" where
  "format_style cls color weight =
     cls @ '' {color: '' @ color @ ''; font-weight: '' @ weight @ ''}''"

text \<open>\<^verbatim>\<open>updateStyle\<close>, after the base class's \<^verbatim>\<open>updateStyle\<close> (a parameter).\<close>

definition updateStyle ::
  "bool \<Rightarrow> 'q pint \<Rightarrow> 'o python \<Rightarrow> (('o, 'q) TaurusValueLineEdit \<Rightarrow> ('o, 'q) TaurusValueLineEdit)
   \<Rightarrow> ('o, 'q) TaurusValueLineEdit \<Rightarrow> ('o, 'q) TaurusValueLineEdit" where
  "updateStyle api P R base_updateStyle w0 =
     (let w = base_updateStyle w0;
          v = getValue w;
          (color, weight) =
            (if outOfRange api P R w v then (''gray'', ''normal'')
             else if inAlarm R w v then
               (''orange'', if hasPendingOperations w then ''bold'' else ''normal'')
             else if hasPendingOperations w then (''blue'', ''bold'')
             else (''black'', ''normal''))
      in w\<lparr>styleSheet := format_style ''TaurusValueLineEdit'' color weight\<rparr>)"

text \<open>
  \<^verbatim>\<open>setValue\<close>: the text becomes the stripped string of the displayed value (\<^verbatim>\<open>str\<close> and
  \<^verbatim>\<open>displayValue\<close> are taken to return). The \<^verbatim>\<open>textChanged\<close> signal that \<^verbatim>\<open>setText\<close> emits
  is followed in the section on signals.
\<close>

definition setValue ::
  "'o python \<Rightarrow> ('o, 'q) TaurusValueLineEdit \<Rightarrow> 'o pyval \<Rightarrow> ('o, 'q) TaurusValueLineEdit" where
  "setValue R w v =
     (let v_str = (case modelObj w of
                     None \<Rightarrow> py_str R v
                   | Some model \<Rightarrow> py_str R (displayValue model v))
      in w\<lparr>text' := strip v_str\<rparr>)"

text \<open>\<^verbatim>\<open>_stepBy\<close>: \<^verbatim>\<open>self.setValue(self.getValue() + v)\<close>; an exception of the sum propagates.\<close>

definition stepBy ::
  "'o python \<Rightarrow> ('o, 'q) TaurusValueLineEdit \<Rightarrow> 'o pyval
   \<Rightarrow> py_error + ('o, 'q) TaurusValueLineEdit" where
  "stepBy R w v =
     (case py_add R (getValue w) v of
        Inl e \<Rightarrow> Inl e
      | Inr s \<Rightarrow> Inr (setValue R w s))"

subsection \<open>Wheel and key events\<close>

datatype KeyboardModifier = ShiftModifier | ControlModifier | AltModifier | MetaModifier

datatype Key = Key_Return | Key_Enter | Key_Up | Key_Down | Key_other int

record QWheelEvent =
  delta :: int
  wheel_modifiers :: "KeyboardModifier set"

record QKeyEvent =
  key :: Key
  key_modifiers :: "KeyboardModifier set"

text \<open>
  What an event handler did: it handed the event to the handler of \<^verbatim>\<open>QLineEdit\<close>
  (for Return and Enter it accepts the event afterwards), or it accepted the event
  and stepped the value.
\<close>

datatype 'w handled = QLineEdit_handler | QLineEdit_handler_accept | Stepped "py_error + 'w"

text \<open>
  \<^verbatim>\<open>wheelEvent\<close>. The module is Python 2 (old-style \<^verbatim>\<open>SIGNAL\<close> connections, \<^verbatim>\<open>QString\<close>, no
  \<^verbatim>\<open>from __future__ import division\<close>), so \<^verbatim>\<open>/\<close> between the int \<^verbatim>\<open>delta()\<close> and an int
  literal is floor division, which \<open>div\<close> on \<open>int\<close> is.
\<close>

definition wheelEvent ::
  "'o python \<Rightarrow> ('o, 'q) TaurusValueLineEdit \<Rightarrow> QWheelEvent
   \<Rightarrow> ('o, 'q) TaurusValueLineEdit handled" where
  "wheelEvent R w evt =
     (if \<not> enableWheelEvent w \<or> readOnly w then QLineEdit_handler
      else case modelObj w of
        None \<Rightarrow> QLineEdit_handler
      | Some model \<Rightarrow>
          if \<not> isNumeric model then QLineEdit_handler
          else
            let numDegrees = delta evt div 8;
                numSteps = numDegrees div 15;
                modifiers = wheel_modifiers evt;
                numSteps' =
                  (if ControlModifier \<in> modifiers then PyInt (numSteps * 10)
                   else if AltModifier \<in> modifiers \<and> isFloat model
                     then PyFloat (int_times_float R numSteps point_one)
                   else PyInt numSteps)
            in Stepped (stepBy R w numSteps'))"

definition keyPressEvent ::
  "'o python \<Rightarrow> ('o, 'q) TaurusValueLineEdit \<Rightarrow> QKeyEvent
   \<Rightarrow> ('o, 'q) TaurusValueLineEdit handled" where
  "keyPressEvent R w evt =
     (if key evt \<in> {Key_Return, Key_Enter} then QLineEdit_handler_accept
      else if readOnly w then QLineEdit_handler
      else case modelObj w of
        None \<Rightarrow> QLineEdit_handler
      | Some model \<Rightarrow>
          if \<not> isNumeric model then QLineEdit_handler
          else if key evt \<noteq> Key_Up \<and> key evt \<noteq> Key_Down then QLineEdit_handler
          else
            let numSteps = (if key evt = Key_Up then 1 else - 1);
                modifiers = key_modifiers evt;
                numSteps' =
                  (if ControlModifier \<in> modifiers then PyInt (numSteps * 10)
                   else if AltModifier \<in> modifiers \<and> isFloat model
                     then PyFloat (int_times_float R numSteps point_one)
                   else PyInt numSteps)
            in Stepped (stepBy R w numSteps'))"

subsection \<open>Signals and slots of \<^verbatim>\<open>TaurusValueLineEdit\<close>\<close>

text \<open>
  \<^verbatim>\<open>__init__\<close> connects four signals of the widget to four slots. \<^verbatim>\<open>writeValue\<close> and
  \<^verbatim>\<open>updatePendingOperations\<close> are methods of \<^verbatim>\<open>TaurusBaseWritableWidget\<close>; a run of the
  widget is observed as the list of calls to them and of the signals emitted on
  the way.
\<close>

datatype Signal = textChanged | returnPressed | valueChanged_signal | editingFinished

datatype Slot = valueChanged | writeValue | updatePendingOperations | onEditingFinished

datatype Action = Emitted Signal | Called_writeValue | Called_updatePendingOperations

definition connections :: "(Signal \<times> Slot) list" where
  "connections =
     [(textChanged, valueChanged),
      (returnPressed, writeValue),
      (valueChanged_signal, updatePendingOperations),
      (editingFinished, onEditingFinished)]"

definition slots_of :: "Signal \<Rightarrow> Slot list" where
  "slots_of sig = map snd (filter (\<lambda>c. fst c = sig) connections)"

text \<open>
  Modelled from the spec: \<^verbatim>\<open>emitValueChanged\<close> belongs to \<^verbatim>\<open>TaurusBaseWritableWidget\<close>,
  which is not part of this module; following the words "textChanged only emits
  valueChanged, which updates the pending operations", it emits the widget's
  \<^verbatim>\<open>valueChanged\<close> signal and does nothing else.

  The other functions are the module's: emitting a signal runs the slots connected
  in \<^verbatim>\<open>__init__\<close>, in the order of connection; the slot \<^verbatim>\<open>valueChanged\<close> calls
  \<^verbatim>\<open>emitValueChanged\<close>, and \<^verbatim>\<open>_onEditingFinished\<close> calls \<^verbatim>\<open>writeValue\<close> under \<^verbatim>\<open>_autoApply\<close>. A
  slot may emit again, so the run carries fuel and \<open>None\<close> is a run that did not
  finish.
\<close>

fun emit :: "nat \<Rightarrow> ('o, 'q) TaurusValueLineEdit \<Rightarrow> Signal \<Rightarrow> Action list option"
  and run_slots :: "nat \<Rightarrow> ('o, 'q) TaurusValueLineEdit \<Rightarrow> Slot list \<Rightarrow> Action list option"
  and run_slot :: "nat \<Rightarrow> ('o, 'q) TaurusValueLineEdit \<Rightarrow> Slot \<Rightarrow> Action list option"
  and emitValueChanged :: "nat \<Rightarrow> ('o, 'q) TaurusValueLineEdit \<Rightarrow> Action list option"
where
  "emit 0 w sig = None"
| "emit (Suc n) w sig =
     (case run_slots n w (slots_of sig) of
        None \<Rightarrow> None
      | Some t \<Rightarrow> Some (Emitted sig # t))"
| "run_slots n w [] = Some []"
| "run_slots n w (s # ss) =
     (case run_slot n w s of
        None \<Rightarrow> None
      | Some t \<Rightarrow> (case run_slots n w ss of None \<Rightarrow> None | Some u \<Rightarrow> Some (t @ u)))"
| "run_slot n w valueChanged = emitValueChanged n w"
| "run_slot n w writeValue = Some [Called_writeValue]"
| "run_slot n w updatePendingOperations = Some [Called_updatePendingOperations]"
| "run_slot n w onEditingFinished =
     (if autoApply w then Some [Called_writeValue] else Some [])"
| "emitValueChanged n w = emit n w valueChanged_signal"

subsection \<open>\<^verbatim>\<open>TaurusConfigLineEdit\<close>\<close>

record 'o TaurusConfiguration =
  cfg_encode :: "string \<Rightarrow> py_error + 'o pyval"
  getParam :: "string \<Rightarrow> 'o pyval"

record 'o TaurusConfigLineEdit =
  cfg_text :: string
  cfg_modelObj :: "'o TaurusConfiguration option"
  configParam :: string
  cfg_styleSheet :: string
  cfg_autoApply :: bool

text \<open>\<^verbatim>\<open>TaurusConfigLineEdit.getValue\<close>, the same body as in \<^verbatim>\<open>TaurusValueLineEdit\<close>.\<close>

definition Config_try_encode :: "'o TaurusConfigLineEdit \<Rightarrow> py_error + 'o pyval" where
  "Config_try_encode w =
     (case cfg_modelObj w of
        None \<Rightarrow> Inl AttributeError
      | Some model \<Rightarrow> cfg_encode model (cfg_text w))"

definition Config_getValue :: "'o TaurusConfigLineEdit \<Rightarrow> 'o pyval" where
  "Config_getValue w = (case Config_try_encode w of Inl _ \<Rightarrow> PyNone | Inr v \<Rightarrow> v)"

text \<open>
  \<^verbatim>\<open>str.rfind\<close>: the highest index of the character, \<open>-1\<close> when it is absent. The scan
  goes left to right and remembers the last hit.
\<close>

fun rfind_from :: "string \<Rightarrow> char \<Rightarrow> int \<Rightarrow> int \<Rightarrow> int" where
  "rfind_from [] c i found = found"
| "rfind_from (x # xs) c i found = rfind_from xs c (i + 1) (if x = c then i else found)"

definition rfind :: "string \<Rightarrow> char \<Rightarrow> int" where
  "rfind s c = rfind_from s c 0 (- 1)"

text \<open>The slice \<^verbatim>\<open>s[k:]\<close>: a negative \<open>k\<close> counts from the end, and the index is clipped.\<close>

definition slice_from :: "string \<Rightarrow> int \<Rightarrow> string" where
  "slice_from s k =
     (let n = int (length s);
          i = (if k < 0 then max (n + k) 0 else min k n)
      in drop (nat i) s)"

text \<open>\<^verbatim>\<open>str.lower()\<close> on a byte string: the letters A to Z are moved to a to z.\<close>

definition lower_char :: "char \<Rightarrow> char" where
  "lower_char c =
     (let n = (of_char c :: nat) in if 65 \<le> n \<and> n \<le> 90 then char_of (n + 32) else c)"

definition lower :: "string \<Rightarrow> string" where
  "lower s = map lower_char s"

text \<open>
  The body of the \<^verbatim>\<open>try\<close> in \<^verbatim>\<open>setModel\<close>; \<^verbatim>\<open>rfind\<close>, slicing and \<^verbatim>\<open>lower\<close> of a \<^verbatim>\<open>str\<close> do
  not raise.
\<close>

definition try_configParam :: "string \<Rightarrow> py_error + string" where
  "try_configParam model = Inr (lower (slice_from model (rfind model CHR ''='' + 1)))"

text \<open>
  \<^verbatim>\<open>setModel\<close> on a string (\<^verbatim>\<open>str(model)\<close> is the string itself); the base class's
  \<^verbatim>\<open>setModel\<close>, called last, is a parameter.
\<close>

definition Config_setModel ::
  "('o TaurusConfigLineEdit \<Rightarrow> string \<Rightarrow> 'o TaurusConfigLineEdit)
   \<Rightarrow> 'o TaurusConfigLineEdit \<Rightarrow> string \<Rightarrow> 'o TaurusConfigLineEdit" where
  "Config_setModel base_setModel w model =
     (let w1 = (case try_configParam model of
                  Inr p \<Rightarrow> w\<lparr>configParam := p\<rparr>
                | Inl _ \<Rightarrow> w\<lparr>configParam := ''''\<rparr>)
      in base_setModel w1 model)"

text \<open>
  The claim's wording of the same value: the part of \<open>s\<close> after the last occurrence
  of a character, the whole of \<open>s\<close> when there is none.
\<close>

definition substring_following_last :: "char \<Rightarrow> string \<Rightarrow> string" where
  "substring_following_last c s = rev (takeWhile (\<lambda>x. x \<noteq> c) (rev s))"

subsection \<open>Concrete objects for running the model\<close>

text \<open>
  A runtime whose objects are Python strings, and an attribute that encodes a few
  texts to floats. Sums and products of floats are taken in the reals, which is what
  the double operation gives whenever the exact result is a double, as for the
  values used here.
\<close>

definition demo_python :: "string python" where
  "demo_python =
     \<lparr>float_of_int = (\<lambda>n. Some (Fin (of_int n))),
      float_of_obj = (\<lambda>s. if s = ''1.5'' then Some (Fin (3 / 2))
                            else if s = ''nan'' then Some NaN
                            else None),
      str_of = (\<lambda>v. case v of PyObj s \<Rightarrow> s | _ \<Rightarrow> ''<number>''),
      add = (\<lambda>a b. case (a, b) of
               (PyInt m, PyInt n) \<Rightarrow> Inr (PyInt (m + n))
             | (PyFloat (Fin x), PyInt n) \<Rightarrow> Inr (PyFloat (Fin (x + of_int n)))
             | (PyFloat (Fin x), PyFloat (Fin y)) \<Rightarrow> Inr (PyFloat (Fin (x + y)))
             | _ \<Rightarrow> Inl TypeError),
      int_times_float = (\<lambda>n x. case x of Fin r \<Rightarrow> Fin (of_int n * r) | _ \<Rightarrow> x)\<rparr>"

definition demo_attr :: "string TaurusAttribute" where
  "demo_attr =
     \<lparr>alarm = (Fin 0, Fin 100),
      range' = (Fin (- 10), Fin 200),
      encode = (\<lambda>s. if s = ''1.0'' then Inr (PyFloat (Fin 1))
                      else if s = ''100.0'' then Inr (PyFloat (Fin 100))
                      else if s = ''200.0'' then Inr (PyFloat (Fin 200))
                      else if s = ''250.0'' then Inr (PyFloat (Fin 250))
                      else Inl OtherException),
      displayValue = (\<lambda>v. case v of
                        PyFloat (Fin x) \<Rightarrow>
                          (if x = 0 then PyObj ''0.0''
                           else if x = 2 then PyObj ''2.0''
                           else if x = 11 then PyObj '' 11.0 ''
                           else PyObj ''<float>'')
                      | _ \<Rightarrow> v),
      isNumeric = True,
      isFloat = True\<rparr>"

definition demo_widget :: "(string, pyfloat \<times> string) TaurusValueLineEdit" where
  "demo_widget =
     \<lparr>enableWheelEvent = True,
      minAlarm = Fin 0, maxAlarm = Fin 100,
      minLimit = Fin (- 10), maxLimit = Fin 200,
      validator = None,
      text' = ''1.0'',
      readOnly = False,
      styleSheet = [],
      autoApply = False,
      modelObj = Some demo_attr,
      hasPendingOperations = False\<rparr>"

definition demo_configuration :: "string TaurusConfiguration" where
  "demo_configuration =
     \<lparr>cfg_encode = (\<lambda>s. if s = ''mm'' then Inr (PyObj ''mm'') else Inl OtherException),
      getParam = (\<lambda>name. if name = ''unit'' then PyObj ''mm'' else PyNone)\<rparr>"

definition demo_config :: "string TaurusConfigLineEdit" where
  "demo_config =
     \<lparr>cfg_text = ''mm'',
      cfg_modelObj = None,
      configParam = ''unit'',
      cfg_styleSheet = [],
      cfg_autoApply = False\<rparr>"

section \<open>Properties of the validator\<close>

lemma item0_validate: "item0 (validate api P V input pos) = fst (validate' P V input pos)"
  by (cases "validate' P V input pos")
     (simp add: validate_def validate_oldQt_def)

lemma validate'_parsed:
  "Quantity P input = Some q \<Longrightarrow>
   fst (validate' P V input pos) =
     (if (\<exists>b. bottom' V = Some b \<and> quantity_lt P q b \<noteq> Inr False) then Invalid
      else if (\<exists>t. top' V = Some t \<and> quantity_gt P q t \<noteq> Inr False) then Invalid
      else Acceptable)"
  by (auto simp: validate'_def split: option.splits sum.splits pint_error.splits bool.splits)

lemma validate'_io:
  "snd (validate' P V input pos) = (input, pos)"
  by (auto simp: validate'_def split: option.splits sum.splits pint_error.splits bool.splits)

text \<open>
  Claim C1. When the input parses as a quantity \<open>q\<close>: if a bottom limit is set and
  \<open>q < bottom\<close>, or a top limit is set and \<open>q > top\<close>, \<^verbatim>\<open>validate\<close> answers \<open>Invalid\<close>;
  if \<open>q\<close> is within every limit that is set (each comparison answering false,
  none raising), it answers \<open>Acceptable\<close> and hands back the input string and the
  cursor position as they came. The state is the same under both Qt string APIs;
  the old one returns no string.
\<close>

theorem validate_within_limits:
  assumes "Quantity P input = Some q"
  shows "(bottom' V = Some b \<and> quantity_lt P q b = Inr True
            \<longrightarrow> item0 (validate api P V input pos) = Invalid)
       \<and> (top' V = Some t \<and> quantity_gt P q t = Inr True
            \<longrightarrow> item0 (validate api P V input pos) = Invalid)
       \<and> ((bottom' V = None \<or> (\<exists>b. bottom' V = Some b \<and> quantity_lt P q b = Inr False))
          \<and> (top' V = None \<or> (\<exists>t. top' V = Some t \<and> quantity_gt P q t = Inr False))
            \<longrightarrow> validate' P V input pos = (Acceptable, input, pos)
              \<and> validate api P V input pos =
                  (if api then OldQt (Acceptable, pos) else NewQt (Acceptable, input, pos)))"
proof -
  have st: "item0 (validate api P V input pos) = fst (validate' P V input pos)"
    by (rule item0_validate)
  have io: "snd (validate' P V input pos) = (input, pos)"
    by (rule validate'_io)
  have a: "bottom' V = Some b \<and> quantity_lt P q b = Inr True
            \<longrightarrow> item0 (validate api P V input pos) = Invalid"
    using assms by (simp add: st validate'_parsed)
  have b: "top' V = Some t \<and> quantity_gt P q t = Inr True
            \<longrightarrow> item0 (validate api P V input pos) = Invalid"
    using assms by (simp add: st validate'_parsed)
  have c: "(bottom' V = None \<or> (\<exists>b. bottom' V = Some b \<and> quantity_lt P q b = Inr False))
          \<and> (top' V = None \<or> (\<exists>t. top' V = Some t \<and> quantity_gt P q t = Inr False))
            \<longrightarrow> validate' P V input pos = (Acceptable, input, pos)
              \<and> validate api P V input pos =
                  (if api then OldQt (Acceptable, pos) else NewQt (Acceptable, input, pos))"
  proof
    assume h: "(bottom' V = None \<or> (\<exists>b. bottom' V = Some b \<and> quantity_lt P q b = Inr False))
          \<and> (top' V = None \<or> (\<exists>t. top' V = Some t \<and> quantity_gt P q t = Inr False))"
    have "fst (validate' P V input pos) = Acceptable"
      using assms h by (auto simp: validate'_parsed)
    with io have v: "validate' P V input pos = (Acceptable, input, pos)"
      by (metis prod.collapse)
    then show "validate' P V input pos = (Acceptable, input, pos)
              \<and> validate api P V input pos =
                  (if api then OldQt (Acceptable, pos) else NewQt (Acceptable, input, pos))"
      by (simp add: validate_def validate_oldQt_def)
  qed
  from a b c show ?thesis by blast
qed

theorem validate_within_limits_witness:
  "Quantity demo_pint ''-5 mm'' = Some (Fin (- 5), ''mm'')
   \<and> bottom' demo_validator = Some (Fin 0, ''mm'')
   \<and> quantity_lt demo_pint (Fin (- 5), ''mm'') (Fin 0, ''mm'') = Inr True
   \<and> item0 (validate False demo_pint demo_validator ''-5 mm'' 2) = Invalid
   \<and> Quantity demo_pint ''20 mm'' = Some (Fin 20, ''mm'')
   \<and> top' demo_validator = Some (Fin 10, ''mm'')
   \<and> quantity_gt demo_pint (Fin 20, ''mm'') (Fin 10, ''mm'') = Inr True
   \<and> item0 (validate True demo_pint demo_validator ''20 mm'' 2) = Invalid
   \<and> Quantity demo_pint ''5 mm'' = Some (Fin 5, ''mm'')
   \<and> quantity_lt demo_pint (Fin 5, ''mm'') (Fin 0, ''mm'') = Inr False
   \<and> quantity_gt demo_pint (Fin 5, ''mm'') (Fin 10, ''mm'') = Inr False
   \<and> validate' demo_pint demo_validator ''5 mm'' 4 = (Acceptable, ''5 mm'', 4)
   \<and> validate False demo_pint demo_validator ''5 mm'' 4 = NewQt (Acceptable, ''5 mm'', 4)"
proof -
  have q1: "Quantity demo_pint ''-5 mm'' = Some (Fin (- 5), ''mm'')"
    and q2: "Quantity demo_pint ''20 mm'' = Some (Fin 20, ''mm'')"
    and q3: "Quantity demo_pint ''5 mm'' = Some (Fin 5, ''mm'')"
    by (simp_all add: demo_pint_def)
  show ?thesis
    using validate_within_limits [OF q1, where V = demo_validator and b = "(Fin 0, ''mm'')"
        and t = "(Fin 10, ''mm'')" and api = False and pos = 2]
      validate_within_limits [OF q2, where V = demo_validator and b = "(Fin 0, ''mm'')"
        and t = "(Fin 10, ''mm'')" and api = True and pos = 2]
      validate_within_limits [OF q3, where V = demo_validator and b = "(Fin 0, ''mm'')"
        and t = "(Fin 10, ''mm'')" and api = False and pos = 4]
    by (simp add: demo_pint_def demo_validator_def)
qed

text \<open>
  Claim C7. An input that does not parse as a quantity is \<open>Intermediate\<close>; a parsed
  quantity whose comparison with a set bottom or top limit raises
  \<^verbatim>\<open>DimensionalityError\<close> is \<open>Invalid\<close>.
\<close>

theorem validate_unparsed_or_incompatible:
  "(Quantity P input = None
      \<longrightarrow> validate' P V input pos = (Intermediate, input, pos)
        \<and> item0 (validate api P V input pos) = Intermediate)
   \<and> (Quantity P input = Some q
        \<and> ((bottom' V = Some b \<and> quantity_lt P q b = Inl DimensionalityError)
           \<or> (top' V = Some t \<and> quantity_gt P q t = Inl DimensionalityError))
      \<longrightarrow> item0 (validate api P V input pos) = Invalid)"
proof (intro conjI impI)
  assume "Quantity P input = None"
  then show "validate' P V input pos = (Intermediate, input, pos)"
    by (simp add: validate'_def)
  then show "item0 (validate api P V input pos) = Intermediate"
    by (simp add: item0_validate)
next
  assume h: "Quantity P input = Some q
        \<and> ((bottom' V = Some b \<and> quantity_lt P q b = Inl DimensionalityError)
           \<or> (top' V = Some t \<and> quantity_gt P q t = Inl DimensionalityError))"
  then have "fst (validate' P V input pos) = Invalid"
    by (auto simp: validate'_parsed)
  then show "item0 (validate api P V input pos) = Invalid"
    by (simp add: item0_validate)
qed

theorem validate_unparsed_or_incompatible_witness:
  "Quantity demo_pint ''5 m'' = None
   \<and> validate' demo_pint demo_validator ''5 m'' 3 = (Intermediate, ''5 m'', 3)
   \<and> item0 (validate True demo_pint demo_validator ''5 m'' 3) = Intermediate
   \<and> Quantity demo_pint ''5 s'' = Some (Fin 5, ''s'')
   \<and> bottom' demo_validator = Some (Fin 0, ''mm'')
   \<and> quantity_lt demo_pint (Fin 5, ''s'') (Fin 0, ''mm'') = Inl DimensionalityError
   \<and> item0 (validate False demo_pint demo_validator ''5 s'' 3) = Invalid
   \<and> top' demo_validator2 = Some (Fin 10, ''mm'')
   \<and> quantity_gt demo_pint (Fin 5, ''s'') (Fin 10, ''mm'') = Inl DimensionalityError
   \<and> item0 (validate False demo_pint demo_validator2 ''5 s'' 3) = Invalid"
  using validate_unparsed_or_incompatible [where P = demo_pint and input = "''5 m''"
      and V = demo_validator and pos = 3 and api = True]
    validate_unparsed_or_incompatible [where P = demo_pint and input = "''5 s''"
      and q = "(Fin 5, ''s'')" and V = demo_validator and b = "(Fin 0, ''mm'')"
      and pos = 3 and api = False]
    validate_unparsed_or_incompatible [where P = demo_pint and input = "''5 s''"
      and q = "(Fin 5, ''s'')" and V = demo_validator2 and t = "(Fin 10, ''mm'')"
      and pos = 3 and api = False]
  by (simp add: demo_pint_def demo_validator_def demo_validator2_def)

section \<open>Properties of \<^verbatim>\<open>TaurusValueLineEdit\<close>\<close>

lemma float_lt_irrefl: "\<not> float_lt x x"
  by (cases x) simp_all

lemma float_le_refl: "x \<noteq> NaN \<Longrightarrow> float_le x x"
  by (cases x) simp_all

lemma float_le_NaN: "float_le a b \<Longrightarrow> a \<noteq> NaN \<and> b \<noteq> NaN"
  by (cases a; cases b) simp_all

text \<open>
  Claim C6. \<^verbatim>\<open>_inAlarm(v)\<close> is true exactly when \<^verbatim>\<open>float(v)\<close> is not strictly between the
  two alarm bounds: for finite values, when it is at most the lower or at least the
  upper bound. A value equal to a bound is in alarm. When \<^verbatim>\<open>float(v)\<close> raises, the
  answer is false.
\<close>

theorem inAlarm_not_strictly_between:
  "(py_float R v = Some x
      \<longrightarrow> inAlarm R w v = (\<not> (float_lt (minAlarm w) x \<and> float_lt x (maxAlarm w))))
   \<and> (py_float R v = Some (Fin r) \<and> minAlarm w = Fin a \<and> maxAlarm w = Fin b
      \<longrightarrow> inAlarm R w v = (r \<le> a \<or> b \<le> r))
   \<and> (py_float R v = Some x \<and> (x = minAlarm w \<or> x = maxAlarm w) \<longrightarrow> inAlarm R w v)
   \<and> (py_float R v = None \<longrightarrow> \<not> inAlarm R w v)"
  by (auto simp: inAlarm_def float_lt_irrefl)

theorem inAlarm_not_strictly_between_witness:
  "py_float demo_python (PyFloat (Fin 100)) = Some (Fin 100)
   \<and> minAlarm demo_widget = Fin 0 \<and> maxAlarm demo_widget = Fin 100
   \<and> inAlarm demo_python demo_widget (PyFloat (Fin 100))
   \<and> py_float demo_python (PyInt 50) = Some (Fin 50)
   \<and> \<not> inAlarm demo_python demo_widget (PyInt 50)
   \<and> py_float demo_python (PyObj ''abc'') = None
   \<and> \<not> inAlarm demo_python demo_widget (PyObj ''abc'')
   \<and> py_float demo_python PyNone = None
   \<and> \<not> inAlarm demo_python demo_widget PyNone"
  using inAlarm_not_strictly_between [where R = demo_python and w = demo_widget
      and v = "PyFloat (Fin 100)" and x = "Fin 100" and r = 100 and a = 0 and b = 100]
    inAlarm_not_strictly_between [where R = demo_python and w = demo_widget
      and v = "PyInt 50" and x = "Fin 50" and r = 50 and a = 0 and b = 100]
    inAlarm_not_strictly_between [where R = demo_python and w = demo_widget
      and v = "PyObj ''abc''"]
    inAlarm_not_strictly_between [where R = demo_python and w = demo_widget
      and v = "PyNone"]
  by (simp add: demo_python_def demo_widget_def)

text \<open>
  Claim C8. With no validator installed, \<^verbatim>\<open>_outOfRange(v)\<close> is true exactly when
  \<^verbatim>\<open>float(v)\<close> is not inside the closed interval of the two limits: for finite values,
  when it is below the lower or above the upper limit. The limits themselves are
  accepted. When \<^verbatim>\<open>float(v)\<close> raises, the answer is false. (A NaN is inside no interval
  and is reported out of range.)
\<close>

theorem outOfRange_without_validator:
  assumes "validator w = None"
  shows "(py_float R v = Some x
            \<longrightarrow> outOfRange api P R w v = (\<not> (float_le (minLimit w) x \<and> float_le x (maxLimit w))))
       \<and> (py_float R v = Some (Fin r) \<and> minLimit w = Fin a \<and> maxLimit w = Fin b
            \<longrightarrow> outOfRange api P R w v = (r < a \<or> b < r))
       \<and> (py_float R v = Some x \<and> float_le (minLimit w) (maxLimit w)
            \<and> (x = minLimit w \<or> x = maxLimit w)
            \<longrightarrow> \<not> outOfRange api P R w v)
       \<and> (py_float R v = None \<longrightarrow> \<not> outOfRange api P R w v)"
  using assms by (auto simp: outOfRange_def float_le_refl dest: float_le_NaN)

theorem outOfRange_without_validator_witness:
  "validator demo_widget = None
   \<and> minLimit demo_widget = Fin (- 10) \<and> maxLimit demo_widget = Fin 200
   \<and> float_le (minLimit demo_widget) (maxLimit demo_widget)
   \<and> py_float demo_python (PyFloat (Fin 200)) = Some (Fin 200)
   \<and> \<not> outOfRange False demo_pint demo_python demo_widget (PyFloat (Fin 200))
   \<and> py_float demo_python (PyInt 201) = Some (Fin 201)
   \<and> outOfRange False demo_pint demo_python demo_widget (PyInt 201)
   \<and> py_float demo_python (PyObj ''abc'') = None
   \<and> \<not> outOfRange False demo_pint demo_python demo_widget (PyObj ''abc'')"
proof -
  have h: "validator demo_widget = None" by (simp add: demo_widget_def)
  show ?thesis
    using outOfRange_without_validator [OF h, where R = demo_python and P = demo_pint
        and api = False and v = "PyFloat (Fin 200)" and x = "Fin 200" and r = 200
        and a = "- 10" and b = 200]
      outOfRange_without_validator [OF h, where R = demo_python and P = demo_pint
        and api = False and v = "PyInt 201" and x = "Fin 201" and r = 201
        and a = "- 10" and b = 200]
      outOfRange_without_validator [OF h, where R = demo_python and P = demo_pint
        and api = False and v = "PyObj ''abc''"]
    by (simp add: demo_python_def demo_widget_def)
qed

text \<open>
  Claim C9. \<^verbatim>\<open>getValue\<close> of both widgets returns a value in every state: \<^verbatim>\<open>None\<close> when
  there is no model object or when \<^verbatim>\<open>model.encode\<close> raises on the text, and what
  \<^verbatim>\<open>encode\<close> returns otherwise.
\<close>

theorem getValue_never_raises:
  "(modelObj w = None \<longrightarrow> getValue w = PyNone)
   \<and> (modelObj w = Some model \<and> encode model (text' w) = Inl e \<longrightarrow> getValue w = PyNone)
   \<and> (modelObj w = Some model \<and> encode model (text' w) = Inr v \<longrightarrow> getValue w = v)
   \<and> (cfg_modelObj c = None \<longrightarrow> Config_getValue c = PyNone)
   \<and> (cfg_modelObj c = Some cmodel \<and> cfg_encode cmodel (cfg_text c) = Inl e'
        \<longrightarrow> Config_getValue c = PyNone)
   \<and> (cfg_modelObj c = Some cmodel \<and> cfg_encode cmodel (cfg_text c) = Inr v'
        \<longrightarrow> Config_getValue c = v')"
  by (simp add: getValue_def try_encode_def Config_getValue_def Config_try_encode_def)

theorem getValue_never_raises_witness:
  "modelObj (demo_widget\<lparr>modelObj := None\<rparr>) = None
   \<and> getValue (demo_widget\<lparr>modelObj := None\<rparr>) = PyNone
   \<and> modelObj (demo_widget\<lparr>text' := ''abc''\<rparr>) = Some demo_attr
   \<and> encode demo_attr (text' (demo_widget\<lparr>text' := ''abc''\<rparr>)) = Inl OtherException
   \<and> getValue (demo_widget\<lparr>text' := ''abc''\<rparr>) = PyNone
   \<and> encode demo_attr (text' demo_widget) = Inr (PyFloat (Fin 1))
   \<and> getValue demo_widget = PyFloat (Fin 1)
   \<and> cfg_modelObj demo_config = None
   \<and> Config_getValue demo_config = PyNone
   \<and> cfg_modelObj (demo_config\<lparr>cfg_modelObj := Some demo_configuration, cfg_text := ''abc''\<rparr>)
       = Some demo_configuration
   \<and> cfg_encode demo_configuration ''abc'' = Inl OtherException
   \<and> Config_getValue (demo_config\<lparr>cfg_modelObj := Some demo_configuration, cfg_text := ''abc''\<rparr>)
       = PyNone
   \<and> cfg_encode demo_configuration ''mm'' = Inr (PyObj ''mm'')
   \<and> Config_getValue (demo_config\<lparr>cfg_modelObj := Some demo_configuration\<rparr>) = PyObj ''mm''"
  using getValue_never_raises [where w = "demo_widget\<lparr>modelObj := None\<rparr>" and c = demo_config]
    getValue_never_raises [where w = "demo_widget\<lparr>text' := ''abc''\<rparr>" and model = demo_attr
      and e = OtherException
      and c = "demo_config\<lparr>cfg_modelObj := Some demo_configuration, cfg_text := ''abc''\<rparr>"
      and cmodel = demo_configuration and e' = OtherException]
    getValue_never_raises [where w = demo_widget and model = demo_attr
      and v = "PyFloat (Fin 1)"
      and c = "demo_config\<lparr>cfg_modelObj := Some demo_configuration\<rparr>"
      and cmodel = demo_configuration and v' = "PyObj ''mm''"]
  by (simp add: demo_widget_def demo_attr_def demo_config_def demo_configuration_def)

lemma demo_values:
  "getValue demo_widget = PyFloat (Fin 1)"
  "getValue (demo_widget\<lparr>text' := ''100.0''\<rparr>) = PyFloat (Fin 100)"
  "getValue (demo_widget\<lparr>text' := ''250.0''\<rparr>) = PyFloat (Fin 250)"
  "getValue (demo_widget\<lparr>hasPendingOperations := True\<rparr>) = PyFloat (Fin 1)"
  "getValue (demo_widget\<lparr>text' := ''100.0'', hasPendingOperations := True\<rparr>) = PyFloat (Fin 100)"
  by (simp_all add: getValue_def try_encode_def demo_widget_def demo_attr_def)

text \<open>
  Claim C2. \<^verbatim>\<open>updateStyle\<close> picks the style by priority, on the value \<^verbatim>\<open>getValue()\<close> read
  after the base class's \<^verbatim>\<open>updateStyle\<close>: out of range gives gray (weight normal);
  otherwise in alarm gives orange, bold exactly when operations are pending;
  otherwise pending operations give blue and bold; otherwise black and normal.
\<close>

theorem updateStyle_priority:
  assumes "w = base_updateStyle w0" and "v = getValue w"
  shows "(outOfRange api P R w v
            \<longrightarrow> styleSheet (updateStyle api P R base_updateStyle w0)
                = format_style ''TaurusValueLineEdit'' ''gray'' ''normal'')
       \<and> (\<not> outOfRange api P R w v \<and> inAlarm R w v
            \<longrightarrow> styleSheet (updateStyle api P R base_updateStyle w0)
                = format_style ''TaurusValueLineEdit'' ''orange''
                    (if hasPendingOperations w then ''bold'' else ''normal''))
       \<and> (\<not> outOfRange api P R w v \<and> \<not> inAlarm R w v \<and> hasPendingOperations w
            \<longrightarrow> styleSheet (updateStyle api P R base_updateStyle w0)
                = format_style ''TaurusValueLineEdit'' ''blue'' ''bold'')
       \<and> (\<not> outOfRange api P R w v \<and> \<not> inAlarm R w v \<and> \<not> hasPendingOperations w
            \<longrightarrow> styleSheet (updateStyle api P R base_updateStyle w0)
                = format_style ''TaurusValueLineEdit'' ''black'' ''normal'')"
  using assms by (simp add: updateStyle_def Let_def)

theorem updateStyle_priority_witness:
  "outOfRange False demo_pint demo_python (demo_widget\<lparr>text' := ''250.0''\<rparr>) (PyFloat (Fin 250))
   \<and> styleSheet (updateStyle False demo_pint demo_python id (demo_widget\<lparr>text' := ''250.0''\<rparr>))
       = ''TaurusValueLineEdit {color: gray; font-weight: normal}''
   \<and> inAlarm demo_python (demo_widget\<lparr>text' := ''100.0''\<rparr>) (PyFloat (Fin 100))
   \<and> styleSheet (updateStyle False demo_pint demo_python id (demo_widget\<lparr>text' := ''100.0''\<rparr>))
       = ''TaurusValueLineEdit {color: orange; font-weight: normal}''
   \<and> styleSheet (updateStyle False demo_pint demo_python id
         (demo_widget\<lparr>text' := ''100.0'', hasPendingOperations := True\<rparr>))
       = ''TaurusValueLineEdit {color: orange; font-weight: bold}''
   \<and> styleSheet (updateStyle False demo_pint demo_python id
         (demo_widget\<lparr>hasPendingOperations := True\<rparr>))
       = ''TaurusValueLineEdit {color: blue; font-weight: bold}''
   \<and> \<not> outOfRange False demo_pint demo_python demo_widget (PyFloat (Fin 1))
   \<and> \<not> inAlarm demo_python demo_widget (PyFloat (Fin 1))
   \<and> \<not> hasPendingOperations demo_widget
   \<and> styleSheet (updateStyle False demo_pint demo_python id demo_widget)
       = ''TaurusValueLineEdit {color: black; font-weight: normal}''"
  using
    updateStyle_priority [where base_updateStyle = id and api = False and P = demo_pint
      and R = demo_python and ?w0.0 = "demo_widget\<lparr>text' := ''250.0''\<rparr>"
      and w = "demo_widget\<lparr>text' := ''250.0''\<rparr>" and v = "PyFloat (Fin 250)"]
    updateStyle_priority [where base_updateStyle = id and api = False and P = demo_pint
      and R = demo_python and ?w0.0 = "demo_widget\<lparr>text' := ''100.0''\<rparr>"
      and w = "demo_widget\<lparr>text' := ''100.0''\<rparr>" and v = "PyFloat (Fin 100)"]
    updateStyle_priority [where base_updateStyle = id and api = False and P = demo_pint
      and R = demo_python
      and ?w0.0 = "demo_widget\<lparr>text' := ''100.0'', hasPendingOperations := True\<rparr>"
      and w = "demo_widget\<lparr>text' := ''100.0'', hasPendingOperations := True\<rparr>"
      and v = "PyFloat (Fin 100)"]
    updateStyle_priority [where base_updateStyle = id and api = False and P = demo_pint
      and R = demo_python and ?w0.0 = "demo_widget\<lparr>hasPendingOperations := True\<rparr>"
      and w = "demo_widget\<lparr>hasPendingOperations := True\<rparr>" and v = "PyFloat (Fin 1)"]
    updateStyle_priority [where base_updateStyle = id and api = False and P = demo_pint
      and R = demo_python and ?w0.0 = demo_widget and w = demo_widget and v = "PyFloat (Fin 1)"]
  by (simp add: demo_values)
     (simp add: outOfRange_def inAlarm_def format_style_def demo_widget_def demo_python_def)


lemma updateValidator_fields:
  "minAlarm (updateValidator P w value) = minAlarm w"
  "maxAlarm (updateValidator P w value) = maxAlarm w"
  "minLimit (updateValidator P w value) = minLimit w"
  "maxLimit (updateValidator P w value) = maxLimit w"
  by (simp_all add: updateValidator_def Let_def)

lemma updateValidator_validator:
  "validator (updateValidator P w value) =
     (if type' value = Integer \<or> type' value = Float
      then Some \<lparr>top' = Some (Quantity_of_number P (maxLimit w)),
                 bottom' = Some (Quantity_of_number P (minLimit w))\<rparr>
      else None)"
  by (simp add: updateValidator_def Let_def setTop_def setBottom_def PintValidator_init_def)

text \<open>
  Claim C4. On a \<open>Config\<close> event, with the attribute as the model object,
  \<^verbatim>\<open>handleEvent\<close> stores the attribute's alarm pair in the alarm fields and its range
  pair in the limit fields, then installs a validator whose bottom is the quantity of
  the new minimum limit and whose top is that of the new maximum limit when the
  value's type is \<open>Integer\<close> or \<open>Float\<close>, and removes the validator for any other
  type. The handler of the base class runs last and is taken not to touch these
  fields.
\<close>

theorem handleEvent_Config:
  assumes model: "modelObj w = Some attr"
    and frame: "\<And>u. minAlarm (base_handleEvent u Config evt_value) = minAlarm u
                  \<and> maxAlarm (base_handleEvent u Config evt_value) = maxAlarm u
                  \<and> minLimit (base_handleEvent u Config evt_value) = minLimit u
                  \<and> maxLimit (base_handleEvent u Config evt_value) = maxLimit u
                  \<and> validator (base_handleEvent u Config evt_value) = validator u"
  shows "\<exists>w'. handleEvent P base_handleEvent w Config evt_value = Inr w'
           \<and> (minAlarm w', maxAlarm w') = alarm attr
           \<and> (minLimit w', maxLimit w') = range' attr
           \<and> (type' evt_value = Integer \<or> type' evt_value = Float
                \<longrightarrow> validator w' = Some \<lparr>top' = Some (Quantity_of_number P (maxLimit w')),
                                          bottom' = Some (Quantity_of_number P (minLimit w'))\<rparr>)
           \<and> (type' evt_value \<noteq> Integer \<and> type' evt_value \<noteq> Float \<longrightarrow> validator w' = None)"
  using model
  by (simp add: handleEvent_def Let_def frame updateValidator_fields updateValidator_validator)

theorem handleEvent_Config_witness:
  "modelObj (init demo_widget) = Some demo_attr
   \<and> minLimit (init demo_widget) = NegInf
   \<and> validator (init demo_widget) = None
   \<and> (\<exists>w'. handleEvent demo_pint (\<lambda>u t x. u\<lparr>hasPendingOperations := False\<rparr>)
              (init demo_widget) Config \<lparr>type' = Float\<rparr> = Inr w'
        \<and> minAlarm w' = Fin 0 \<and> maxAlarm w' = Fin 100
        \<and> minLimit w' = Fin (- 10) \<and> maxLimit w' = Fin 200
        \<and> validator w' = Some \<lparr>top' = Some (Fin 200, []), bottom' = Some (Fin (- 10), [])\<rparr>)
   \<and> (\<exists>w'. handleEvent demo_pint (\<lambda>u t x. u\<lparr>hasPendingOperations := False\<rparr>)
              (init demo_widget\<lparr>validator := Some demo_validator\<rparr>) Config
              \<lparr>type' = OtherDataType ''String''\<rparr> = Inr w'
        \<and> minAlarm w' = Fin 0 \<and> maxAlarm w' = Fin 100
        \<and> minLimit w' = Fin (- 10) \<and> maxLimit w' = Fin 200
        \<and> validator w' = None)"
proof -
  have m: "modelObj (init demo_widget) = Some demo_attr"
    and m': "modelObj (init demo_widget\<lparr>validator := Some demo_validator\<rparr>) = Some demo_attr"
    by (simp_all add: init_def demo_widget_def)
  show ?thesis
    using handleEvent_Config [OF m, where P = demo_pint and evt_value = "\<lparr>type' = Float\<rparr>"
        and base_handleEvent = "\<lambda>u t x. u\<lparr>hasPendingOperations := False\<rparr>"]
      handleEvent_Config [OF m', where P = demo_pint
        and evt_value = "\<lparr>type' = OtherDataType ''String''\<rparr>"
        and base_handleEvent = "\<lambda>u t x. u\<lparr>hasPendingOperations := False\<rparr>"]
    by (auto simp: m init_def demo_widget_def demo_attr_def demo_pint_def)
qed


section \<open>Signals\<close>

lemma emit_valueChanged_signal:
  "emit (Suc n) w valueChanged_signal =
     Some [Emitted valueChanged_signal, Called_updatePendingOperations]"
  by (simp add: slots_of_def connections_def)

lemma emit_textChanged:
  "emit (Suc (Suc n)) w textChanged =
     Some [Emitted textChanged, Emitted valueChanged_signal, Called_updatePendingOperations]"
  by (simp add: slots_of_def connections_def)

lemma emit_returnPressed:
  "emit (Suc n) w returnPressed = Some [Emitted returnPressed, Called_writeValue]"
  by (simp add: slots_of_def connections_def)

lemma emit_editingFinished:
  "emit (Suc n) w editingFinished =
     Some (Emitted editingFinished # (if autoApply w then [Called_writeValue] else []))"
  by (simp add: slots_of_def connections_def)

text \<open>
  Claim C5. With enough fuel every emission finishes. \<open>textChanged\<close> only emits the
  \<^verbatim>\<open>valueChanged\<close> signal, which updates the pending operations, and never calls
  \<^verbatim>\<open>writeValue\<close>; \<open>returnPressed\<close> calls \<^verbatim>\<open>writeValue\<close>; \<open>editingFinished\<close> calls it exactly
  when \<^verbatim>\<open>_autoApply\<close> is set. So among the widget's signals \<^verbatim>\<open>writeValue\<close> is called on
  \<open>returnPressed\<close>, on \<open>editingFinished\<close> under auto-apply, and on nothing else.
\<close>

theorem writeValue_only_on_return_or_autoApply:
  "emit (Suc (Suc n)) w textChanged =
     Some [Emitted textChanged, Emitted valueChanged_signal, Called_updatePendingOperations]
   \<and> emit (Suc (Suc n)) w returnPressed = Some [Emitted returnPressed, Called_writeValue]
   \<and> emit (Suc (Suc n)) w editingFinished =
       Some (Emitted editingFinished # (if autoApply w then [Called_writeValue] else []))
   \<and> (\<exists>t. emit (Suc (Suc n)) w sig = Some t
         \<and> (Called_writeValue \<in> set t)
             = (sig = returnPressed \<or> (sig = editingFinished \<and> autoApply w)))"
proof -
  have "\<exists>t. emit (Suc (Suc n)) w sig = Some t
         \<and> (Called_writeValue \<in> set t)
             = (sig = returnPressed \<or> (sig = editingFinished \<and> autoApply w))"
    by (cases sig)
       (simp_all only: emit_textChanged emit_returnPressed emit_editingFinished
          emit_valueChanged_signal, auto)
  then show ?thesis
    by (simp only: emit_textChanged emit_returnPressed emit_editingFinished)
qed

theorem writeValue_only_on_return_or_autoApply_witness:
  "emit 2 demo_widget textChanged =
     Some [Emitted textChanged, Emitted valueChanged_signal, Called_updatePendingOperations]
   \<and> emit 2 demo_widget returnPressed = Some [Emitted returnPressed, Called_writeValue]
   \<and> emit 2 demo_widget editingFinished = Some [Emitted editingFinished]
   \<and> emit 2 (demo_widget\<lparr>autoApply := True\<rparr>) editingFinished
       = Some [Emitted editingFinished, Called_writeValue]"
  using writeValue_only_on_return_or_autoApply [where n = 0 and w = demo_widget
      and sig = editingFinished]
    writeValue_only_on_return_or_autoApply [where n = 0
      and w = "demo_widget\<lparr>autoApply := True\<rparr>" and sig = editingFinished]
  by (simp add: numeral_2_eq_2 demo_widget_def)


section \<open>Stepping by wheel and keys\<close>

lemma demo_getValue: "getValue demo_widget = PyFloat (Fin 1)"
  by (simp add: getValue_def try_encode_def demo_widget_def demo_attr_def)

lemma demo_strip: "strip '' 11.0 '' = ''11.0''" "strip ''2.0'' = ''2.0''" "strip ''<float>'' = ''<float>''"
  by (simp_all add: strip_def isspace_def)

lemma demo_setValue:
  "setValue demo_python demo_widget v =
     demo_widget\<lparr>text' := strip (py_str demo_python (displayValue demo_attr v))\<rparr>"
  by (simp add: setValue_def demo_widget_def)

lemma demo_py_add:
  "add demo_python (PyFloat (Fin 1)) (PyInt n) = Inr (PyFloat (Fin (1 + of_int n)))"
  "add demo_python (PyFloat (Fin 1)) (PyFloat (Fin x)) = Inr (PyFloat (Fin (1 + x)))"
  by (simp_all add: demo_python_def)

lemma demo_stepBy_int:
  "stepBy demo_python demo_widget (PyInt n) =
     Inr (demo_widget\<lparr>text' := strip (py_str demo_python
            (displayValue demo_attr (PyFloat (Fin (1 + of_int n)))))\<rparr>)"
  by (simp add: stepBy_def demo_getValue demo_py_add demo_setValue)

lemma demo_display:
  "py_str demo_python (displayValue demo_attr (PyFloat (Fin x))) =
     (if x = 0 then ''0.0'' else if x = 2 then ''2.0'' else if x = 11 then '' 11.0 ''
      else ''<float>'')"
  by (simp add: demo_attr_def demo_python_def)

text \<open>
  Claim C3 as worded fails: with Control and Alt both held on a float model, the
  \<^verbatim>\<open>elif\<close> gives the factor 10 alone. One wheel notch (\<open>delta = 120\<close>) on the text
  \<^verbatim>\<open>1.0\<close> leads to \<^verbatim>\<open>11.0\<close>, not to the value stepped by a tenth.
\<close>

theorem wheel_ctrl_alt_counterexample:
  "enableWheelEvent demo_widget \<and> \<not> readOnly demo_widget
   \<and> modelObj demo_widget = Some demo_attr \<and> isNumeric demo_attr \<and> isFloat demo_attr
   \<and> AltModifier \<in> wheel_modifiers \<lparr>delta = 120, wheel_modifiers = {ControlModifier, AltModifier}\<rparr>
   \<and> wheelEvent demo_python demo_widget
         \<lparr>delta = 120, wheel_modifiers = {ControlModifier, AltModifier}\<rparr>
       = Stepped (Inr (demo_widget\<lparr>text' := ''11.0''\<rparr>))
   \<and> stepBy demo_python demo_widget
         (PyFloat (int_times_float demo_python (120 div 8 div 15) point_one))
       = Inr (demo_widget\<lparr>text' := ''<float>''\<rparr>)
   \<and> wheelEvent demo_python demo_widget
         \<lparr>delta = 120, wheel_modifiers = {ControlModifier, AltModifier}\<rparr>
       \<noteq> Stepped (stepBy demo_python demo_widget
            (PyFloat (int_times_float demo_python (120 div 8 div 15) point_one)))"
proof -
  have a: "wheelEvent demo_python demo_widget
         \<lparr>delta = 120, wheel_modifiers = {ControlModifier, AltModifier}\<rparr>
       = Stepped (stepBy demo_python demo_widget (PyInt 10))"
    by (simp add: wheelEvent_def demo_widget_def demo_attr_def)
  have b: "stepBy demo_python demo_widget (PyInt 10) = Inr (demo_widget\<lparr>text' := ''11.0''\<rparr>)"
    by (simp add: demo_stepBy_int demo_display demo_strip)
  have c: "stepBy demo_python demo_widget
         (PyFloat (int_times_float demo_python (120 div 8 div 15) point_one))
       = Inr (demo_widget\<lparr>text' := ''<float>''\<rparr>)"
  proof -
    have "int_times_float demo_python (120 div 8 div 15) point_one
            = Fin (3602879701896397 / 36028797018963968)"
      by (simp add: demo_python_def point_one_def)
    then show ?thesis
      by (simp add: stepBy_def demo_getValue demo_py_add demo_setValue demo_display demo_strip)
  qed
  have d: "demo_widget\<lparr>text' := ''11.0''\<rparr> \<noteq> demo_widget\<lparr>text' := ''<float>''\<rparr>"
    by (simp add: demo_widget_def)
  show ?thesis
    unfolding a b c using d by (simp add: demo_widget_def demo_attr_def)
qed

text \<open>
  Claim C3, amended. On a writable widget with a numeric model: a wheel event (wheel
  events enabled) steps by \<open>delta\<close> floor-divided by 8 and then by 15, a \<^verbatim>\<open>Key_Up\<close>
  press by 1 and a \<^verbatim>\<open>Key_Down\<close> press by -1; the count is multiplied by 10 when Control
  is held, and by the float \<^verbatim>\<open>.1\<close> when Control is not held and Alt is held on a float
  model. \<^verbatim>\<open>_stepBy\<close> sets the value to \<^verbatim>\<open>getValue() + steps\<close>, and an exception of the
  sum (as for \<^verbatim>\<open>None + steps\<close>) propagates.
\<close>

theorem step_events:
  assumes "modelObj w = Some model" and "isNumeric model" and "\<not> readOnly w"
  shows "(enableWheelEvent w \<longrightarrow>
            wheelEvent R w evt = Stepped (stepBy R w
              (if ControlModifier \<in> wheel_modifiers evt
                 then PyInt (delta evt div 8 div 15 * 10)
               else if AltModifier \<in> wheel_modifiers evt \<and> isFloat model
                 then PyFloat (int_times_float R (delta evt div 8 div 15) point_one)
               else PyInt (delta evt div 8 div 15))))
       \<and> (key kevt = Key_Up \<longrightarrow>
            keyPressEvent R w kevt = Stepped (stepBy R w
              (if ControlModifier \<in> key_modifiers kevt then PyInt 10
               else if AltModifier \<in> key_modifiers kevt \<and> isFloat model
                 then PyFloat (int_times_float R 1 point_one)
               else PyInt 1)))
       \<and> (key kevt = Key_Down \<longrightarrow>
            keyPressEvent R w kevt = Stepped (stepBy R w
              (if ControlModifier \<in> key_modifiers kevt then PyInt (- 10)
               else if AltModifier \<in> key_modifiers kevt \<and> isFloat model
                 then PyFloat (int_times_float R (- 1) point_one)
               else PyInt (- 1))))
       \<and> (py_add R (getValue w) v = Inr s \<longrightarrow> stepBy R w v = Inr (setValue R w s))
       \<and> (py_add R (getValue w) v = Inl e \<longrightarrow> stepBy R w v = Inl e)"
  using assms by (simp add: wheelEvent_def keyPressEvent_def stepBy_def Let_def)

theorem step_events_witness:
  "modelObj demo_widget = Some demo_attr \<and> isNumeric demo_attr \<and> \<not> readOnly demo_widget
   \<and> enableWheelEvent demo_widget
   \<and> wheelEvent demo_python demo_widget \<lparr>delta = 120, wheel_modifiers = {}\<rparr>
       = Stepped (Inr (demo_widget\<lparr>text' := ''2.0''\<rparr>))
   \<and> wheelEvent demo_python demo_widget \<lparr>delta = - 100, wheel_modifiers = {ShiftModifier}\<rparr>
       = Stepped (Inr (demo_widget\<lparr>text' := ''0.0''\<rparr>))
   \<and> keyPressEvent demo_python demo_widget \<lparr>key = Key_Up, key_modifiers = {ControlModifier}\<rparr>
       = Stepped (Inr (demo_widget\<lparr>text' := ''11.0''\<rparr>))
   \<and> keyPressEvent demo_python demo_widget \<lparr>key = Key_Down, key_modifiers = {}\<rparr>
       = Stepped (Inr (demo_widget\<lparr>text' := ''0.0''\<rparr>))
   \<and> keyPressEvent demo_python demo_widget \<lparr>key = Key_Up, key_modifiers = {AltModifier}\<rparr>
       = Stepped (stepBy demo_python demo_widget
           (PyFloat (int_times_float demo_python 1 point_one)))
   \<and> py_add demo_python (getValue demo_widget) (PyInt 1) = Inr (PyFloat (Fin 2))
   \<and> stepBy demo_python demo_widget (PyInt 1)
       = Inr (setValue demo_python demo_widget (PyFloat (Fin 2)))
   \<and> py_add demo_python (getValue (demo_widget\<lparr>text' := ''abc''\<rparr>)) (PyInt 1) = Inl TypeError
   \<and> stepBy demo_python (demo_widget\<lparr>text' := ''abc''\<rparr>) (PyInt 1) = Inl TypeError"
proof -
  have h: "modelObj demo_widget = Some demo_attr" "isNumeric demo_attr" "\<not> readOnly demo_widget"
    and h': "modelObj (demo_widget\<lparr>text' := ''abc''\<rparr>) = Some demo_attr"
      "\<not> readOnly (demo_widget\<lparr>text' := ''abc''\<rparr>)"
    and e: "enableWheelEvent demo_widget" "isFloat demo_attr"
    by (simp_all add: demo_widget_def demo_attr_def)
  have g: "getValue (demo_widget\<lparr>text' := ''abc''\<rparr>) = PyNone"
    by (simp add: getValue_def try_encode_def demo_widget_def demo_attr_def)
  have t: "strip ''0.0'' = ''0.0''"
    by (simp add: strip_def isspace_def)
  have 1: "wheelEvent demo_python demo_widget \<lparr>delta = 120, wheel_modifiers = {}\<rparr>
             = Stepped (Inr (demo_widget\<lparr>text' := ''2.0''\<rparr>))
           \<and> keyPressEvent demo_python demo_widget
               \<lparr>key = Key_Up, key_modifiers = {ControlModifier}\<rparr>
             = Stepped (Inr (demo_widget\<lparr>text' := ''11.0''\<rparr>))
           \<and> py_add demo_python (getValue demo_widget) (PyInt 1) = Inr (PyFloat (Fin 2))
           \<and> stepBy demo_python demo_widget (PyInt 1)
             = Inr (setValue demo_python demo_widget (PyFloat (Fin 2)))"
    using step_events [OF h, where R = demo_python
        and evt = "\<lparr>delta = 120, wheel_modifiers = {}\<rparr>"
        and kevt = "\<lparr>key = Key_Up, key_modifiers = {ControlModifier}\<rparr>"
        and v = "PyInt 1" and s = "PyFloat (Fin 2)" and e = TypeError]
    by (simp add: e demo_getValue demo_py_add demo_stepBy_int demo_display demo_strip)
  have 2: "wheelEvent demo_python demo_widget \<lparr>delta = - 100, wheel_modifiers = {ShiftModifier}\<rparr>
             = Stepped (Inr (demo_widget\<lparr>text' := ''0.0''\<rparr>))
           \<and> keyPressEvent demo_python demo_widget \<lparr>key = Key_Down, key_modifiers = {}\<rparr>
             = Stepped (Inr (demo_widget\<lparr>text' := ''0.0''\<rparr>))"
    using step_events [OF h, where R = demo_python
        and evt = "\<lparr>delta = - 100, wheel_modifiers = {ShiftModifier}\<rparr>"
        and kevt = "\<lparr>key = Key_Down, key_modifiers = {}\<rparr>"
        and v = "PyInt 1" and s = "PyFloat (Fin 2)" and e = TypeError]
    by (simp add: e demo_getValue demo_py_add demo_stepBy_int demo_display t)
  have 3: "keyPressEvent demo_python demo_widget \<lparr>key = Key_Up, key_modifiers = {AltModifier}\<rparr>
             = Stepped (stepBy demo_python demo_widget
                 (PyFloat (int_times_float demo_python 1 point_one)))"
    using step_events [OF h, where R = demo_python
        and evt = "\<lparr>delta = 120, wheel_modifiers = {}\<rparr>"
        and kevt = "\<lparr>key = Key_Up, key_modifiers = {AltModifier}\<rparr>"
        and v = "PyInt 1" and s = "PyFloat (Fin 2)" and e = TypeError]
    by (simp add: e)
  have 4: "py_add demo_python (getValue (demo_widget\<lparr>text' := ''abc''\<rparr>)) (PyInt 1)
             = Inl TypeError
           \<and> stepBy demo_python (demo_widget\<lparr>text' := ''abc''\<rparr>) (PyInt 1) = Inl TypeError"
    using step_events [OF h'(1) h(2) h'(2), where R = demo_python
        and evt = "\<lparr>delta = 120, wheel_modifiers = {}\<rparr>"
        and kevt = "\<lparr>key = Key_Up, key_modifiers = {AltModifier}\<rparr>"
        and v = "PyInt 1" and s = "PyFloat (Fin 2)" and e = TypeError]
    by (simp add: g)
  from h e 1 2 3 4 show ?thesis by simp
qed


section \<open>Properties of \<^verbatim>\<open>TaurusConfigLineEdit\<close>\<close>

lemma rfind_from_append:
  "rfind_from (xs @ [x]) c i found =
     (if x = c then i + int (length xs) else rfind_from xs c i found)"
  by (induction xs arbitrary: i found) simp_all

lemma rfind_snoc:
  "rfind (xs @ [x]) c = (if x = c then int (length xs) else rfind xs c)"
  by (simp add: rfind_def rfind_from_append)

lemma rfind_Nil: "rfind [] c = - 1"
  by (simp add: rfind_def)

lemma rfind_bounds: "- 1 \<le> rfind s c \<and> rfind s c < int (length s)"
  by (induction s rule: rev_induct) (auto simp: rfind_Nil rfind_snoc)

lemma rfind_absent: "c \<notin> set s \<Longrightarrow> rfind s c = - 1"
  by (induction s rule: rev_induct) (auto simp: rfind_Nil rfind_snoc)

lemma slice_from_nonneg: "0 \<le> k \<Longrightarrow> slice_from s k = drop (nat k) s"
  by (simp add: slice_from_def Let_def min_def)

lemma substring_following_last_snoc:
  "substring_following_last c (xs @ [x]) =
     (if x = c then [] else substring_following_last c xs @ [x])"
  by (simp add: substring_following_last_def)

lemma slice_after_rfind:
  "slice_from s (rfind s c + 1) = substring_following_last c s"
proof (induction s rule: rev_induct)
  case Nil
  show ?case by (simp add: slice_from_def rfind_Nil substring_following_last_def)
next
  case (snoc x xs)
  have b: "0 \<le> rfind xs c + 1" "nat (rfind xs c + 1) \<le> length xs"
    using rfind_bounds [of xs c] by auto
  show ?case
  proof (cases "x = c")
    case True
    then show ?thesis
      by (simp add: rfind_snoc substring_following_last_snoc slice_from_nonneg nat_add_distrib)
  next
    case False
    have "slice_from (xs @ [x]) (rfind xs c + 1) = drop (nat (rfind xs c + 1)) xs @ [x]"
      using b by (simp add: slice_from_nonneg)
    also have "\<dots> = slice_from xs (rfind xs c + 1) @ [x]"
      using b by (simp add: slice_from_nonneg)
    finally show ?thesis
      using False snoc.IH by (simp add: rfind_snoc substring_following_last_snoc)
  qed
qed

lemma substring_following_last_absent:
  "c \<notin> set s \<Longrightarrow> substring_following_last c s = s"
proof -
  assume "c \<notin> set s"
  then have "takeWhile (\<lambda>x. x \<noteq> c) (rev s) = rev s"
    by (intro takeWhile_eq_all_conv [THEN iffD2]) auto
  then show ?thesis
    by (simp only: substring_following_last_def rev_rev_ident)
qed

lemma lower_demo: "lower ''Unit'' = ''unit''" "lower ''LABEL'' = ''label''"
  by code_simp+

text \<open>
  Claim C10. For every string \<open>s\<close>, \<^verbatim>\<open>setModel\<close> sets \<^verbatim>\<open>_configParam\<close> to the lower-cased
  part of \<open>s\<close> after the last \<^verbatim>\<open>=\<close>; without any \<^verbatim>\<open>=\<close> this is all of \<open>s\<close> lower-cased.
  The \<^verbatim>\<open>try\<close> body always yields a value, so the \<^verbatim>\<open>except\<close> branch is never taken. The
  base class's \<^verbatim>\<open>setModel\<close>, called last, is taken not to touch \<^verbatim>\<open>_configParam\<close>.
\<close>

theorem setModel_configParam:
  assumes frame: "\<And>u m. configParam (base_setModel u m) = configParam u"
  shows "try_configParam s = Inr (lower (substring_following_last CHR ''='' s))
       \<and> configParam (Config_setModel base_setModel w s)
           = lower (substring_following_last CHR ''='' s)
       \<and> (CHR ''='' \<notin> set s \<longrightarrow> configParam (Config_setModel base_setModel w s) = lower s)"
  by (simp add: Config_setModel_def try_configParam_def frame slice_after_rfind
        substring_following_last_absent)

theorem setModel_configParam_witness:
  "configParam (Config_setModel (\<lambda>u m. u\<lparr>cfg_text := m\<rparr>) demo_config
       ''sys/tg_test/1/double_scalar?configuration=Unit'') = ''unit''
   \<and> CHR ''='' \<notin> set ''LABEL''
   \<and> configParam (Config_setModel (\<lambda>u m. u\<lparr>cfg_text := m\<rparr>) demo_config ''LABEL'') = ''label''
   \<and> configParam (Config_setModel (\<lambda>u m. u\<lparr>cfg_text := m\<rparr>) demo_config ''a=b='') = []"
  using setModel_configParam [where base_setModel = "\<lambda>u m. u\<lparr>cfg_text := m\<rparr>"
      and w = demo_config and s = "''sys/tg_test/1/double_scalar?configuration=Unit''"]
    setModel_configParam [where base_setModel = "\<lambda>u m. u\<lparr>cfg_text := m\<rparr>"
      and w = demo_config and s = "''LABEL''"]
    setModel_configParam [where base_setModel = "\<lambda>u m. u\<lparr>cfg_text := m\<rparr>"
      and w = demo_config and s = "''a=b=''"]
  by (simp add: substring_following_last_def lower_demo) (simp add: lower_def)


end
